theory Spec2Isabelle
  imports Main
begin

section \<open>Errors\<close>

text \<open>
  \<^verbatim>\<open>AppError(message, statusCode, code)\<close> of \<^verbatim>\<open>middleware/errorHandler.ts\<close> is the
  only exception class the authentication code throws itself. The other
  constructors are the exceptions of the Prisma client that can reach a caller:
  an \<^verbatim>\<open>update\<close> whose \<^verbatim>\<open>where\<close> matches no row, a \<^verbatim>\<open>create\<close> with a value
  too long for its column, and a \<^verbatim>\<open>findUnique\<close> whose key is \<^verbatim>\<open>undefined\<close>.
\<close>

datatype error =
    AppError (message: string) (statusCode: int) (code: string)
  | PrismaRecordNotFound
  | PrismaValueTooLong
  | PrismaValidationError

section \<open>The refresh-token table\<close>

text \<open>
  One row of \<^verbatim>\<open>refresh_tokens\<close> (migration \<^verbatim>\<open>20251003132033_add_refresh_tokens\<close>).
  Timestamps are milliseconds since the epoch, the value a JavaScript \<^verbatim>\<open>Date\<close>
  compares by. The column \<^verbatim>\<open>id\<close> is called \<open>tok_id\<close>.
\<close>

record RefreshToken =
  tok_id :: int
  adminId :: "int option"
  customerId :: "int option"
  familyId :: string
  tokenHash :: string
  userAgent :: "string option"
  ip :: "string option"
  createdAt :: int
  expiresAt :: int
  revokedAt :: "int option"
  replacedById :: "int option"

text \<open>
  The table is its rows in storage order together with the next value of the
  \<^verbatim>\<open>SERIAL\<close> sequence behind \<^verbatim>\<open>id\<close>.
\<close>

record token_table =
  rows :: "RefreshToken list"
  nextval :: int

text \<open>
  The columns a caller passes to \<^verbatim>\<open>prisma.refreshToken.create\<close>; \<^verbatim>\<open>id\<close>,
  \<^verbatim>\<open>created_at\<close>, \<^verbatim>\<open>revoked_at\<close> and \<^verbatim>\<open>replacedById\<close> are filled in by the database.
\<close>

record token_data =
  d_adminId :: "int option"
  d_customerId :: "int option"
  d_familyId :: string
  d_tokenHash :: string
  d_userAgent :: "string option"
  d_ip :: "string option"
  d_expiresAt :: int

text \<open>
  Whether an optional string fits a \<^verbatim>\<open>VARCHAR(n)\<close> column; \<^verbatim>\<open>NULL\<close> always does.
\<close>

fun fits :: "nat \<Rightarrow> string option \<Rightarrow> bool" where
  "fits n None = True"
| "fits n (Some s) = (length s \<le> n)"

text \<open>
  \<^verbatim>\<open>prisma.refreshToken.create({ data })\<close>. The database refuses a row whose
  \<^verbatim>\<open>familyId\<close> is longer than 64 characters, whose \<^verbatim>\<open>token_hash\<close> or
  \<^verbatim>\<open>user_agent\<close> is longer than 255, or whose \<^verbatim>\<open>ip\<close> is longer than 64: Prisma
  then throws and nothing is written. Otherwise the new row takes the next
  sequence value as its id and the database clock \<open>dbnow\<close> as \<^verbatim>\<open>created_at\<close>,
  and the call returns the row. The table has no unique index besides the
  primary key. The foreign keys of \<^verbatim>\<open>adminId\<close> and \<^verbatim>\<open>customerId\<close> are not part of
  this table's model: a rotation copies the owner of a stored row, and the
  theorem that a rotation runs through at the refresh endpoint assumes that this
  owner exists.
\<close>

definition refreshToken_create ::
  "token_data \<Rightarrow> int \<Rightarrow> token_table \<Rightarrow> error + RefreshToken \<times> token_table" where
  "refreshToken_create d dbnow tbl =
     (if length (d_familyId d) \<le> 64 \<and> length (d_tokenHash d) \<le> 255 \<and>
         fits 255 (d_userAgent d) \<and> fits 64 (d_ip d)
      then
        (let r = \<lparr> tok_id = nextval tbl,
                    adminId = d_adminId d,
                    customerId = d_customerId d,
                    familyId = d_familyId d,
                    tokenHash = d_tokenHash d,
                    userAgent = d_userAgent d,
                    ip = d_ip d,
                    createdAt = dbnow,
                    expiresAt = d_expiresAt d,
                    revokedAt = None,
                    replacedById = None \<rparr>
         in Inr (r, tbl\<lparr> rows := rows tbl @ [r], nextval := nextval tbl + 1 \<rparr>))
      else Inl PrismaValueTooLong)"

text \<open>\<^verbatim>\<open>prisma.refreshToken.findFirst({ where: { tokenHash } })\<close>.\<close>

definition refreshToken_findFirst :: "string \<Rightarrow> token_table \<Rightarrow> RefreshToken option" where
  "refreshToken_findFirst h tbl = find (\<lambda>r. tokenHash r = h) (rows tbl)"

text \<open>
  \<^verbatim>\<open>prisma.refreshToken.updateMany({ where: { familyId, revokedAt: null },
  data: { revokedAt } })\<close>.
\<close>

definition refreshToken_updateMany :: "string \<Rightarrow> int \<Rightarrow> token_table \<Rightarrow> token_table" where
  "refreshToken_updateMany fid t tbl =
     tbl\<lparr> rows := map (\<lambda>r. if familyId r = fid \<and> revokedAt r = None
                              then r\<lparr> revokedAt := Some t \<rparr> else r) (rows tbl) \<rparr>"

text \<open>
  \<^verbatim>\<open>prisma.refreshToken.update({ where: { id }, data: { revokedAt, replacedById } })\<close>;
  Prisma throws when no row has that id.
\<close>

definition refreshToken_update ::
  "int \<Rightarrow> int \<Rightarrow> int \<Rightarrow> token_table \<Rightarrow> token_table option" where
  "refreshToken_update i t succ tbl =
     (if list_ex (\<lambda>r. tok_id r = i) (rows tbl)
      then Some (tbl\<lparr> rows := map (\<lambda>r. if tok_id r = i
                                          then r\<lparr> revokedAt := Some t, replacedById := Some succ \<rparr>
                                          else r) (rows tbl) \<rparr>)
      else None)"

section \<open>The refresh-token manager (\<^verbatim>\<open>AuthService\<close>)\<close>

text \<open>
  What the code takes from its environment is an argument of the model:
  \<^item> \<open>H\<close> is \<^verbatim>\<open>hashToken\<close>, the SHA-256 hex digest of a string;
  \<^item> \<open>plainNew\<close> is the value \<^verbatim>\<open>crypto.randomBytes(48).toString('hex')\<close> returns;
  \<^item> a \<open>clock\<close> gives the successive readings of the wall clock made during one
    call: \<open>clk 0\<close> is the first reading, \<open>clk 1\<close> the second, and so on.
  A function that writes to the table returns the table after each of its
  writes, in order; \<open>after_writes\<close> is the table the call leaves behind.
\<close>

type_synonym clock = "nat \<Rightarrow> int"

definition after_writes :: "'a \<Rightarrow> 'a list \<Rightarrow> 'a" where
  "after_writes tbl ws = last (tbl # ws)"

text \<open>
  A request header value as Node delivers it (\<^verbatim>\<open>string | string[]\<close>), and the
  client metadata argument \<^verbatim>\<open>{ userAgent?, ip? }\<close>.
\<close>

datatype header_value = Single string | Multiple "string list"

record client_meta =
  m_userAgent :: "header_value option"
  m_ip :: "string option"

fun join_comma :: "string list \<Rightarrow> string" where
  "join_comma [] = []"
| "join_comma [x] = x"
| "join_comma (x # y # ys) = x @ '','' @ join_comma (y # ys)"

text \<open>
  \<^verbatim>\<open>typeof ua === 'string' ? ua : Array.isArray(ua) ? ua.join(',') : undefined\<close>
\<close>

fun userAgent_column :: "header_value option \<Rightarrow> string option" where
  "userAgent_column (Some (Single s)) = Some s"
| "userAgent_column (Some (Multiple ss)) = Some (join_comma ss)"
| "userAgent_column None = None"

definition findRefreshTokenByPlain ::
  "(string \<Rightarrow> string) \<Rightarrow> string \<Rightarrow> token_table \<Rightarrow> RefreshToken option" where
  "findRefreshTokenByPlain H plain tbl = refreshToken_findFirst (H plain) tbl"

definition revokeRefreshFamilyByFamilyId :: "string \<Rightarrow> clock \<Rightarrow> token_table \<Rightarrow> token_table" where
  "revokeRefreshFamilyByFamilyId fid clk tbl = refreshToken_updateMany fid (clk 0) tbl"

text \<open>\<^verbatim>\<open>x || undefined\<close> on an optional number: \<^verbatim>\<open>null\<close> and \<^verbatim>\<open>0\<close> are falsy.\<close>

fun or_undefined :: "int option \<Rightarrow> int option" where
  "or_undefined None = None"
| "or_undefined (Some n) = (if n = 0 then None else Some n)"

record rotated =
  newPlainToken :: string
  ttlMs :: int
  r_adminId :: "int option"
  r_customerId :: "int option"
  r_familyId :: string

definition refresh_ttlMs :: int where
  "refresh_ttlMs = 7 * 24 * 60 * 60 * 1000"

text \<open>
  \<^verbatim>\<open>AuthService.rotateRefreshToken(plainToken, meta)\<close>. On the reuse branch the
  only clock reading is the one inside \<^verbatim>\<open>revokeRefreshFamilyByFamilyId\<close>. On the
  other branches \<open>clk 0\<close> is the \<^verbatim>\<open>new Date()\<close> of the expiry test, \<open>clk 1\<close> the
  \<^verbatim>\<open>Date.now()\<close> behind the new \<^verbatim>\<open>expiresAt\<close>, \<open>clk 2\<close> the database's
  \<^verbatim>\<open>CURRENT_TIMESTAMP\<close> at the insert and \<open>clk 3\<close> the \<^verbatim>\<open>new Date()\<close> written to
  \<^verbatim>\<open>revokedAt\<close>. An exception of either Prisma call leaves the function as it is.
\<close>

definition rotateRefreshToken ::
  "(string \<Rightarrow> string) \<Rightarrow> string \<Rightarrow> client_meta \<Rightarrow> string \<Rightarrow> clock \<Rightarrow> token_table
     \<Rightarrow> (error + rotated) \<times> token_table list" where
  "rotateRefreshToken H plainToken meta plainNew clk tbl =
     (case findRefreshTokenByPlain H plainToken tbl of
        None \<Rightarrow> (Inl (AppError ''Invalid refresh token'' 401 ''INVALID_REFRESH''), [])
      | Some existing \<Rightarrow>
          if revokedAt existing \<noteq> None then
            (Inl (AppError ''Refresh token reused'' 401 ''REFRESH_REUSE''),
             [revokeRefreshFamilyByFamilyId (familyId existing) clk tbl])
          else if expiresAt existing \<le> clk 0 then
            (Inl (AppError ''Refresh token expired'' 401 ''REFRESH_EXPIRED''), [])
          else
            (case refreshToken_create
                    \<lparr> d_adminId = adminId existing,
                      d_customerId = customerId existing,
                      d_familyId = familyId existing,
                      d_tokenHash = H plainNew,
                      d_userAgent = userAgent_column (m_userAgent meta),
                      d_ip = m_ip meta,
                      d_expiresAt = clk 1 + refresh_ttlMs \<rparr> (clk 2) tbl of
               Inl err \<Rightarrow> (Inl err, [])
             | Inr (newRec, tbl1) \<Rightarrow>
                 (case refreshToken_update (tok_id existing) (clk 3) (tok_id newRec) tbl1 of
                    None \<Rightarrow> (Inl PrismaRecordNotFound, [tbl1])
                  | Some tbl2 \<Rightarrow>
                      (Inr \<lparr> newPlainToken = plainNew,
                             ttlMs = refresh_ttlMs,
                             r_adminId = or_undefined (adminId existing),
                             r_customerId = or_undefined (customerId existing),
                             r_familyId = familyId existing \<rparr>,
                       [tbl1, tbl2]))))"

section \<open>Principals\<close>

text \<open>
  A row of \<^verbatim>\<open>admins\<close> or of \<^verbatim>\<open>customers\<close>: the two tables have the same columns.
  The columns \<^verbatim>\<open>id\<close>, \<^verbatim>\<open>name\<close> and \<^verbatim>\<open>created_at\<close> are called \<open>acc_id\<close>,
  \<open>acc_name\<close> and \<open>acc_createdAt\<close>.
\<close>

record account =
  acc_id :: int
  acc_name :: string
  email :: string
  passwordHash :: string
  isActive :: bool
  acc_createdAt :: int
  lastLogin :: "int option"

text \<open>
  \<^verbatim>\<open>AdminResponse\<close> and \<^verbatim>\<open>CustomerResponse\<close>, the projection handed to the
  caller. An ISO date string is represented by the timestamp it prints.
\<close>

record profile =
  pr_id :: int
  pr_name :: string
  pr_email :: string
  pr_isActive :: bool
  pr_createdAt :: int
  pr_lastLogin :: "int option"

record database =
  admins :: "account list"
  customers :: "account list"
  refreshTokens :: token_table

text \<open>\<^verbatim>\<open>findUnique({ where: { id } })\<close> and \<^verbatim>\<open>findUnique({ where: { email } })\<close>.\<close>

definition findUnique_id :: "int \<Rightarrow> account list \<Rightarrow> account option" where
  "findUnique_id i tbl = find (\<lambda>a. acc_id a = i) tbl"

definition findUnique_email :: "string \<Rightarrow> account list \<Rightarrow> account option" where
  "findUnique_email e tbl = find (\<lambda>a. email a = e) tbl"

text \<open>\<^verbatim>\<open>update({ where: { id }, data: { lastLogin } })\<close>.\<close>

definition update_lastLogin :: "int \<Rightarrow> int \<Rightarrow> account list \<Rightarrow> account list option" where
  "update_lastLogin i t tbl =
     (if list_ex (\<lambda>a. acc_id a = i) tbl
      then Some (map (\<lambda>a. if acc_id a = i then a\<lparr> lastLogin := Some t \<rparr> else a) tbl)
      else None)"

text \<open>\<^verbatim>\<open>AuthService.getAdminById\<close>.\<close>

definition getAdminById :: "int \<Rightarrow> account list \<Rightarrow> error + profile" where
  "getAdminById adminId' tbl =
     (case findUnique_id adminId' tbl of
        None \<Rightarrow> Inl (AppError ''Admin not found'' 404 ''ADMIN_NOT_FOUND'')
      | Some admin \<Rightarrow>
          if \<not> isActive admin then
            Inl (AppError ''Admin account is deactivated'' 401 ''ACCOUNT_DEACTIVATED'')
          else
            Inr \<lparr> pr_id = acc_id admin, pr_name = acc_name admin, pr_email = email admin,
                  pr_isActive = isActive admin, pr_createdAt = acc_createdAt admin,
                  pr_lastLogin = lastLogin admin \<rparr>)"

text \<open>\<^verbatim>\<open>CustomerService.getCustomerById\<close>.\<close>

definition getCustomerById :: "int \<Rightarrow> account list \<Rightarrow> error + profile" where
  "getCustomerById i tbl =
     (case findUnique_id i tbl of
        None \<Rightarrow> Inl (AppError ''Customer not found'' 404 ''CUSTOMER_NOT_FOUND'')
      | Some customer \<Rightarrow>
          Inr \<lparr> pr_id = acc_id customer, pr_name = acc_name customer,
                pr_email = email customer, pr_isActive = isActive customer,
                pr_createdAt = acc_createdAt customer, pr_lastLogin = lastLogin customer \<rparr>)"

section \<open>Access tokens\<close>

text \<open>The two settings of \<^verbatim>\<open>config/env.ts\<close> the token code reads.\<close>

record env =
  JWT_SECRET :: string
  JWT_EXPIRES_HOURS :: int

text \<open>\<^verbatim>\<open>JWT_EXPIRES_HOURS: z.string().default('8').transform(parseInt)\<close>.\<close>

definition default_JWT_EXPIRES_HOURS :: int where
  "default_JWT_EXPIRES_HOURS = 8"

text \<open>
  The object given to \<^verbatim>\<open>jwt.sign\<close>, and the object \<^verbatim>\<open>jwt.verify\<close> returns: the
  same claims with \<^verbatim>\<open>iat\<close> and \<^verbatim>\<open>exp\<close> (seconds since the epoch) added.
\<close>

record claims =
  c_adminId :: "int option"
  c_customerId :: "int option"
  c_type :: string

record decoded = claims +
  iat :: int
  exp :: int

text \<open>
  The \<^verbatim>\<open>jsonwebtoken\<close> package is a dependency, not code of the repository, and
  its signature is not computed here. A token string is either \<open>Jwt d k\<close>, the
  compact serialisation of the claims \<open>d\<close> signed with the key \<open>k\<close>, or \<open>Text s\<close>,
  a string \<open>s\<close> that is no well-formed JWT. \<open>jwt_sign\<close> and \<open>jwt_verify\<close> follow the
  package's documented behaviour: \<^verbatim>\<open>expiresIn: 'Nh'\<close> sets \<^verbatim>\<open>exp = iat + N * 3600\<close>
  with \<^verbatim>\<open>iat = floor(Date.now() / 1000)\<close>, and verification throws on a malformed
  token, on a signature made with another key, and when
  \<^verbatim>\<open>floor(Date.now() / 1000) >= exp\<close>. A thrown exception is \<open>None\<close>.
\<close>

datatype token = Text string | Jwt decoded string

definition jwt_sign :: "claims \<Rightarrow> string \<Rightarrow> int \<Rightarrow> int \<Rightarrow> token" where
  "jwt_sign c secret hours now =
     Jwt \<lparr> c_adminId = c_adminId c, c_customerId = c_customerId c, c_type = c_type c,
           iat = now div 1000, exp = now div 1000 + hours * 3600 \<rparr> secret"

fun jwt_verify :: "token \<Rightarrow> string \<Rightarrow> int \<Rightarrow> decoded option" where
  "jwt_verify (Text s) secret now = None"
| "jwt_verify (Jwt d k) secret now =
     (if k \<noteq> secret then None
      else if exp d \<le> now div 1000 then None
      else Some d)"

text \<open>
  \<^verbatim>\<open>AuthService.generateToken\<close>, \<^verbatim>\<open>generateCustomerToken\<close> and \<^verbatim>\<open>verifyToken\<close>;
  \<open>now\<close> is the reading of \<^verbatim>\<open>Date.now()\<close> the package makes.
\<close>

definition generateToken :: "env \<Rightarrow> int \<Rightarrow> int \<Rightarrow> token" where
  "generateToken e adminId' now =
     jwt_sign \<lparr> c_adminId = Some adminId', c_customerId = None, c_type = ''admin'' \<rparr>
       (JWT_SECRET e) (JWT_EXPIRES_HOURS e) now"

definition generateCustomerToken :: "env \<Rightarrow> int \<Rightarrow> int \<Rightarrow> token" where
  "generateCustomerToken e customerId' now =
     jwt_sign \<lparr> c_adminId = None, c_customerId = Some customerId', c_type = ''customer'' \<rparr>
       (JWT_SECRET e) (JWT_EXPIRES_HOURS e) now"

definition verifyToken :: "env \<Rightarrow> token \<Rightarrow> int \<Rightarrow> error + decoded" where
  "verifyToken e tok now =
     (case jwt_verify tok (JWT_SECRET e) now of
        Some d \<Rightarrow> Inr d
      | None \<Rightarrow> Inl (AppError ''Invalid or expired token'' 401 ''INVALID_TOKEN''))"

section \<open>Requests and the authorization guards (\<^verbatim>\<open>middleware/auth.ts\<close>)\<close>

text \<open>
  The parts of an Express request the authentication code reads. The
  \<^verbatim>\<open>Authorization\<close> header is given as the list \<^verbatim>\<open>authHeader.split(' ')\<close> of its
  parts, each a token string; \<open>req_admin\<close> and \<open>req_customer\<close> are the principals
  a guard attaches.
\<close>

record request =
  req_method :: string
  authorization :: "token list option"
  x_csrf_token :: "string option"
  user_agent :: "header_value option"
  req_ip :: "string option"
  cookie_access_token :: "token option"
  cookie_refresh_token :: "string option"
  cookie_csrf_token :: "string option"
  req_admin :: "profile option"
  req_customer :: "profile option"

definition extractToken :: "request \<Rightarrow> token option" where
  "extractToken req =
     (case authorization req of
        Some [p0, p1] \<Rightarrow> if p0 = Text ''Bearer'' then Some p1 else cookie_access_token req
      | _ \<Rightarrow> cookie_access_token req)"

text \<open>
  \<^verbatim>\<open>authenticateAdmin\<close>. \<open>Inl e\<close> is \<^verbatim>\<open>next(e)\<close>; \<open>Inr req'\<close> is \<^verbatim>\<open>next()\<close> with the
  request as the guard leaves it. \<^verbatim>\<open>!token\<close> holds of \<^verbatim>\<open>null\<close> and of the empty
  string. A decoded token without the id claim makes Prisma reject the query.
\<close>

definition token_required :: error where
  "token_required = AppError ''Access token is required'' 401 ''TOKEN_REQUIRED''"

definition invalid_token_type :: error where
  "invalid_token_type = AppError ''Invalid token type'' 401 ''INVALID_TOKEN_TYPE''"

definition authenticateAdmin :: "env \<Rightarrow> request \<Rightarrow> int \<Rightarrow> database \<Rightarrow> error + request" where
  "authenticateAdmin e req now db =
     (case extractToken req of
        None \<Rightarrow> Inl token_required
      | Some tok \<Rightarrow>
          if tok = Text [] then Inl token_required
          else
            (case verifyToken e tok now of
               Inl err \<Rightarrow> Inl err
             | Inr d \<Rightarrow>
                 if c_type d \<noteq> ''admin'' then Inl invalid_token_type
                 else
                   (case c_adminId d of
                      None \<Rightarrow> Inl PrismaValidationError
                    | Some i \<Rightarrow>
                        (case getAdminById i (admins db) of
                           Inl err \<Rightarrow> Inl err
                         | Inr admin \<Rightarrow> Inr (req\<lparr> req_admin := Some admin \<rparr>)))))"

text \<open>\<^verbatim>\<open>authenticateCustomer\<close>.\<close>

definition authenticateCustomer :: "env \<Rightarrow> request \<Rightarrow> int \<Rightarrow> database \<Rightarrow> error + request" where
  "authenticateCustomer e req now db =
     (case extractToken req of
        None \<Rightarrow> Inl token_required
      | Some tok \<Rightarrow>
          if tok = Text [] then Inl token_required
          else
            (case verifyToken e tok now of
               Inl err \<Rightarrow> Inl err
             | Inr d \<Rightarrow>
                 if c_type d \<noteq> ''customer'' then Inl invalid_token_type
                 else
                   (case c_customerId d of
                      None \<Rightarrow> Inl PrismaValidationError
                    | Some i \<Rightarrow>
                        (case getCustomerById i (customers db) of
                           Inl err \<Rightarrow> Inl err
                         | Inr customer \<Rightarrow> Inr (req\<lparr> req_customer := Some customer \<rparr>)))))"

section \<open>The CSRF guard (\<^verbatim>\<open>middleware/csrf.ts\<close>)\<close>

text \<open>
  \<^verbatim>\<open>String.prototype.toUpperCase\<close> on the ASCII letters, which are all that the
  name of an HTTP method is compared against.
\<close>

definition upper_char :: "char \<Rightarrow> char" where
  "upper_char c =
     (let n = (of_char c :: nat)
      in if 97 \<le> n \<and> n \<le> 122 then char_of (n - 32) else c)"

definition toUpperCase :: "string \<Rightarrow> string" where
  "toUpperCase s = map upper_char s"

text \<open>
  What a middleware does with a request: hand it on (\<^verbatim>\<open>next()\<close>) or answer it
  with \<^verbatim>\<open>res.status(st).json({ error: { code, message } })\<close>.
\<close>

datatype outcome = Next | Reject int string string

text \<open>\<^verbatim>\<open>!x\<close> on an optional string: \<^verbatim>\<open>undefined\<close> and the empty string are falsy.\<close>

fun falsy :: "string option \<Rightarrow> bool" where
  "falsy None = True"
| "falsy (Some s) = (s = [])"

definition verifyCsrf :: "request \<Rightarrow> outcome" where
  "verifyCsrf req =
     (let method' = toUpperCase (req_method req);
          unsafe = (method' = ''POST'' \<or> method' = ''PUT'' \<or> method' = ''PATCH''
                    \<or> method' = ''DELETE'')
      in if \<not> unsafe then Next
         else
           (let cookieToken = cookie_csrf_token req;
                headerToken = x_csrf_token req
            in if falsy cookieToken \<or> falsy headerToken \<or> cookieToken \<noteq> headerToken
               then Reject 403 ''CSRF_MISMATCH'' ''Invalid CSRF token''
               else Next))"

section \<open>Admin login (\<^verbatim>\<open>AuthService.login\<close>)\<close>

record LoginResponse =
  lr_admin :: profile
  lr_token :: token
  lr_expiresAt :: int

text \<open>
  \<open>cmp\<close> is \<^verbatim>\<open>bcrypt.compare\<close>. The clock is read by \<^verbatim>\<open>jwt.sign\<close> (\<open>clk 0\<close>), for
  the returned \<^verbatim>\<open>expiresAt\<close> (\<open>clk 1\<close>), for the stored \<^verbatim>\<open>lastLogin\<close> (\<open>clk 2\<close>)
  and for the returned \<^verbatim>\<open>lastLogin\<close> (\<open>clk 3\<close>). The second component lists the
  \<^verbatim>\<open>admins\<close> table after each write.
\<close>

definition invalid_credentials :: error where
  "invalid_credentials = AppError ''Invalid email or password'' 401 ''INVALID_CREDENTIALS''"

definition login ::
  "env \<Rightarrow> (string \<Rightarrow> string \<Rightarrow> bool) \<Rightarrow> string \<Rightarrow> string \<Rightarrow> clock \<Rightarrow> account list
     \<Rightarrow> (error + LoginResponse) \<times> account list list" where
  "login e cmp email' password clk tbl =
     (case findUnique_email email' tbl of
        None \<Rightarrow> (Inl invalid_credentials, [])
      | Some admin \<Rightarrow>
          if \<not> isActive admin then
            (Inl (AppError ''Admin account is deactivated'' 401 ''ACCOUNT_DEACTIVATED''), [])
          else if \<not> cmp password (passwordHash admin) then
            (Inl invalid_credentials, [])
          else
            (let tok = generateToken e (acc_id admin) (clk 0);
                 expiresAt' = clk 1 + JWT_EXPIRES_HOURS e * 60 * 60 * 1000
             in case update_lastLogin (acc_id admin) (clk 2) tbl of
                  None \<Rightarrow> (Inl PrismaRecordNotFound, [])
                | Some tbl' \<Rightarrow>
                    (Inr \<lparr> lr_admin = \<lparr> pr_id = acc_id admin, pr_name = acc_name admin,
                                        pr_email = email admin, pr_isActive = isActive admin,
                                        pr_createdAt = acc_createdAt admin,
                                        pr_lastLogin = Some (clk 3) \<rparr>,
                           lr_token = tok,
                           lr_expiresAt = expiresAt' \<rparr>,
                     [tbl'])))"

section \<open>Responses and the refresh endpoint of the admin router\<close>

text \<open>
  \<^verbatim>\<open>errorHandler\<close>: the status and the \<^verbatim>\<open>{ code, message }\<close> body an exception
  becomes. Prisma's not-found and value-too-long errors are
  \<^verbatim>\<open>PrismaClientKnownRequestError\<close>s; its validation error has no branch of its own.
\<close>

fun errorHandler :: "error \<Rightarrow> outcome" where
  "errorHandler (AppError m st c) = Reject st c m"
| "errorHandler PrismaRecordNotFound = Reject 400 ''DATABASE_ERROR'' ''Database operation failed''"
| "errorHandler PrismaValueTooLong = Reject 400 ''DATABASE_ERROR'' ''Database operation failed''"
| "errorHandler PrismaValidationError = Reject 500 ''INTERNAL_ERROR'' ''An unexpected error occurred''"

text \<open>
  A cookie set on the response is its name, its value and its \<^verbatim>\<open>maxAge\<close> in
  milliseconds; the other options are the same constants on every cookie.
\<close>

datatype body = ErrorBody string string | RefreshBody token int

record response =
  status :: int
  set_cookies :: "(string \<times> token \<times> int) list"
  json :: body

fun error_response :: "outcome \<Rightarrow> response" where
  "error_response (Reject st c m) = \<lparr> status = st, set_cookies = [], json = ErrorBody c m \<rparr>"
| "error_response Next = \<lparr> status = 200, set_cookies = [], json = ErrorBody [] [] \<rparr>"

text \<open>
  The handler of \<^verbatim>\<open>POST /refresh-token\<close>. It reads the \<^verbatim>\<open>refresh_tokens\<close> table
  of the database and no other. After the readings \<open>clk 0\<close> to \<open>clk 3\<close> of the
  rotation, \<^verbatim>\<open>jwt.sign\<close> reads \<open>clk 4\<close> and the returned \<^verbatim>\<open>expiresAt\<close> reads \<open>clk 5\<close>.
\<close>

definition accessTtlMs :: int where
  "accessTtlMs = 15 * 60 * 1000"

definition refresh_required :: response where
  "refresh_required =
     \<lparr> status = 401, set_cookies = [],
       json = ErrorBody ''REFRESH_REQUIRED'' ''Refresh token required'' \<rparr>"

definition refresh_token_route ::
  "env \<Rightarrow> (string \<Rightarrow> string) \<Rightarrow> request \<Rightarrow> string \<Rightarrow> clock \<Rightarrow> database
     \<Rightarrow> response \<times> token_table list" where
  "refresh_token_route e H req plainNew clk db =
     (case cookie_refresh_token req of
        None \<Rightarrow> (refresh_required, [])
      | Some refreshToken \<Rightarrow>
          if refreshToken = [] then (refresh_required, [])
          else
            (case rotateRefreshToken H refreshToken
                    \<lparr> m_userAgent = user_agent req, m_ip = req_ip req \<rparr> plainNew clk
                    (refreshTokens db) of
               (Inl err, ws) \<Rightarrow> (error_response (errorHandler err), ws)
             | (Inr rot, ws) \<Rightarrow>
                 (let accessToken =
                        (case or_undefined (r_adminId rot) of
                           Some a \<Rightarrow> generateToken e a (clk 4)
                         | None \<Rightarrow>
                             (case or_undefined (r_customerId rot) of
                                Some c \<Rightarrow> generateCustomerToken e c (clk 4)
                              | None \<Rightarrow> Text []))
                  in (\<lparr> status = 200,
                         set_cookies = [(''access_token'', accessToken, accessTtlMs),
                                        (''refresh_token'', Text (newPlainToken rot), ttlMs rot)],
                         json = RefreshBody accessToken (clk 5 + accessTtlMs) \<rparr>,
                      ws))))"

section \<open>Sample data\<close>

text \<open>
  Rows, tables and requests on which the theorems below are run. \<open>sample_row\<close>
  is a token of admin 1 in the family \<open>fam\<close>; \<open>plain_digest\<close>, the
  digest used with it, is the identity.
\<close>

definition sample_row :: "int \<Rightarrow> string \<Rightarrow> int \<Rightarrow> int option \<Rightarrow> RefreshToken" where
  "sample_row i h e rv =
     \<lparr> tok_id = i, adminId = Some 1, customerId = None, familyId = ''fam'',
       tokenHash = h, userAgent = None, ip = None, createdAt = 0, expiresAt = e,
       revokedAt = rv, replacedById = None \<rparr>"

definition plain_digest :: "string \<Rightarrow> string" where
  "plain_digest s = s"

text \<open>A clock that shows the time \<open>t\<close> at every reading.\<close>

definition frozen_clock :: "int \<Rightarrow> clock" where
  "frozen_clock t k = t"

definition no_meta :: client_meta where
  "no_meta = \<lparr> m_userAgent = None, m_ip = None \<rparr>"

text \<open>A table whose first token has been rotated away and whose second is live.\<close>

definition spent_table :: token_table where
  "spent_table =
     \<lparr> rows = [sample_row 1 ''a'' 100 (Some 10), sample_row 2 ''b'' 100 None], nextval = 3 \<rparr>"

text \<open>A table holding one live token that expires at time 100.\<close>

definition live_table :: token_table where
  "live_table = \<lparr> rows = [sample_row 1 ''a'' 100 None], nextval = 2 \<rparr>"

text \<open>
  The environment with a 32-character secret and the default token lifetime, an
  account row, a request that carries nothing, and a database of the given
  principals over \<open>live_table\<close>.
\<close>

definition sample_env :: env where
  "sample_env =
     \<lparr> JWT_SECRET = ''0123456789abcdef0123456789abcdef'',
       JWT_EXPIRES_HOURS = default_JWT_EXPIRES_HOURS \<rparr>"

definition sample_account :: "int \<Rightarrow> bool \<Rightarrow> account" where
  "sample_account i active =
     \<lparr> acc_id = i, acc_name = ''Sam'', email = ''sam@x.com'', passwordHash = ''Abcdefg1'',
       isActive = active, acc_createdAt = 0, lastLogin = None \<rparr>"

definition bare_request :: request where
  "bare_request =
     \<lparr> req_method = ''GET'', authorization = None, x_csrf_token = None, user_agent = None,
       req_ip = None, cookie_access_token = None, cookie_refresh_token = None,
       cookie_csrf_token = None, req_admin = None, req_customer = None \<rparr>"

definition sample_db :: "account list \<Rightarrow> account list \<Rightarrow> database" where
  "sample_db as cs = \<lparr> admins = as, customers = cs, refreshTokens = live_table \<rparr>"

text \<open>A stand-in for \<^verbatim>\<open>bcrypt.compare\<close>: the stored hash is the password itself.\<close>

definition plain_compare :: "string \<Rightarrow> string \<Rightarrow> bool" where
  "plain_compare password hash = (hash = password)"

text \<open>A \<^verbatim>\<open>User-Agent\<close> header of 300 characters.\<close>

definition long_user_agent :: string where
  "long_user_agent = replicate 300 (CHR ''x'')"

section \<open>Family revocation\<close>

lemma updateMany_rows_twice:
  "refreshToken_updateMany fid t2 (refreshToken_updateMany fid t1 tbl) =
   refreshToken_updateMany fid t1 tbl"
  by (simp add: refreshToken_updateMany_def comp_def cong: map_cong)

text \<open>
  C7. Revoking a family a second time, whatever the clock then shows, leaves the
  table exactly as the first revocation left it.
\<close>

theorem revokeFamily_idempotent:
  "revokeRefreshFamilyByFamilyId fid clk2 (revokeRefreshFamilyByFamilyId fid clk1 tbl) =
   revokeRefreshFamilyByFamilyId fid clk1 tbl"
  by (simp add: revokeRefreshFamilyByFamilyId_def updateMany_rows_twice)

lemma rows_updateMany:
  "rows (refreshToken_updateMany fid t tbl) =
   map (\<lambda>r. if familyId r = fid \<and> revokedAt r = None then r\<lparr> revokedAt := Some t \<rparr> else r)
     (rows tbl)"
  by (simp add: refreshToken_updateMany_def)

lemma revoke_rows_all:
  "list_all (\<lambda>r. familyId r = fid \<longrightarrow> revokedAt r \<noteq> None)
     (map (\<lambda>r. if familyId r = fid \<and> revokedAt r = None then r\<lparr> revokedAt := Some t \<rparr> else r) xs)"
  by (induction xs) simp_all

lemma updateMany_family_revoked:
  "\<forall>r \<in> set (rows (refreshToken_updateMany fid t tbl)).
     familyId r = fid \<longrightarrow> revokedAt r \<noteq> None"
  using revoke_rows_all [of fid t "rows tbl"]
  unfolding list_all_iff by (simp only: rows_updateMany)

section \<open>Rotation: reuse and expiry\<close>

text \<open>
  C1. When the presented plaintext finds a row whose \<^verbatim>\<open>revokedAt\<close> is set, the
  rotation fails with \<^verbatim>\<open>REFRESH_REUSE\<close>, and in the table it leaves behind every
  row of that row's family has \<^verbatim>\<open>revokedAt\<close> set.
\<close>

theorem rotate_reuse_revokes_family:
  assumes "findRefreshTokenByPlain H plainToken tbl = Some existing"
      and "revokedAt existing \<noteq> None"
  shows "fst (rotateRefreshToken H plainToken meta plainNew clk tbl) =
           Inl (AppError ''Refresh token reused'' 401 ''REFRESH_REUSE'') \<and>
         (\<forall>r \<in> set (rows (after_writes tbl
                     (snd (rotateRefreshToken H plainToken meta plainNew clk tbl)))).
            familyId r = familyId existing \<longrightarrow> revokedAt r \<noteq> None)"
proof -
  have run: "rotateRefreshToken H plainToken meta plainNew clk tbl =
      (Inl (AppError ''Refresh token reused'' 401 ''REFRESH_REUSE''),
       [refreshToken_updateMany (familyId existing) (clk 0) tbl])"
    using assms by (simp add: rotateRefreshToken_def revokeRefreshFamilyByFamilyId_def)
  show ?thesis
    unfolding run after_writes_def
    using updateMany_family_revoked [of "familyId existing" "clk 0" tbl]
    by simp
qed

text \<open>
  On \<open>spent_table\<close>, presenting the spent token \<open>a\<close> at time 50 fails with
  \<^verbatim>\<open>REFRESH_REUSE\<close> and revokes its live sibling at that time.
\<close>

theorem rotate_reuse_revokes_family_witness:
  "fst (rotateRefreshToken plain_digest ''a'' no_meta ''c'' (frozen_clock 50) spent_table)
     = Inl (AppError ''Refresh token reused'' 401 ''REFRESH_REUSE'') \<and>
   map revokedAt (rows (after_writes spent_table
          (snd (rotateRefreshToken plain_digest ''a'' no_meta ''c'' (frozen_clock 50) spent_table))))
     = [Some 10, Some 50]"
proof -
  have f: "findRefreshTokenByPlain plain_digest ''a'' spent_table = Some (sample_row 1 ''a'' 100 (Some 10))"
    by (simp add: findRefreshTokenByPlain_def refreshToken_findFirst_def sample_row_def
        spent_table_def plain_digest_def)
  have r: "revokedAt (sample_row 1 ''a'' 100 (Some 10)) \<noteq> None"
    by (simp add: sample_row_def)
  note th = rotate_reuse_revokes_family [OF f r, of no_meta "''c''" "frozen_clock 50"]
  have "map revokedAt (rows (after_writes spent_table
          (snd (rotateRefreshToken plain_digest ''a'' no_meta ''c'' (frozen_clock 50) spent_table))))
        = [Some 10, Some 50]"
    by (simp add: rotateRefreshToken_def after_writes_def revokeRefreshFamilyByFamilyId_def
        findRefreshTokenByPlain_def refreshToken_findFirst_def sample_row_def
        refreshToken_updateMany_def spent_table_def plain_digest_def frozen_clock_def)
  with th show ?thesis by simp
qed

text \<open>
  C3. When the presented plaintext finds a row that is not revoked and whose
  \<^verbatim>\<open>expiresAt\<close> is at or before the clock reading (the boundary included), the
  rotation fails with \<^verbatim>\<open>REFRESH_EXPIRED\<close> and writes nothing: the table is left
  as it was.
\<close>

theorem rotate_expired_no_write:
  assumes "findRefreshTokenByPlain H plainToken tbl = Some existing"
      and "revokedAt existing = None"
      and "expiresAt existing \<le> clk 0"
  shows "rotateRefreshToken H plainToken meta plainNew clk tbl =
           (Inl (AppError ''Refresh token expired'' 401 ''REFRESH_EXPIRED''), []) \<and>
         after_writes tbl (snd (rotateRefreshToken H plainToken meta plainNew clk tbl)) = tbl"
  using assms by (simp add: rotateRefreshToken_def after_writes_def)

text \<open>On \<open>live_table\<close>, presenting the token exactly at its expiry time 100.\<close>

theorem rotate_expired_no_write_witness:
  "rotateRefreshToken plain_digest ''a'' no_meta ''c'' (frozen_clock 100) live_table =
     (Inl (AppError ''Refresh token expired'' 401 ''REFRESH_EXPIRED''), []) \<and>
   after_writes live_table
     (snd (rotateRefreshToken plain_digest ''a'' no_meta ''c'' (frozen_clock 100) live_table)) = live_table"
proof -
  have f: "findRefreshTokenByPlain plain_digest ''a'' live_table = Some (sample_row 1 ''a'' 100 None)"
    by (simp add: findRefreshTokenByPlain_def refreshToken_findFirst_def sample_row_def
        live_table_def plain_digest_def)
  have r: "revokedAt (sample_row 1 ''a'' 100 None) = None"
    by (simp add: sample_row_def)
  have e: "expiresAt (sample_row 1 ''a'' 100 None) \<le> frozen_clock 100 0"
    by (simp add: sample_row_def frozen_clock_def)
  show ?thesis
    using rotate_expired_no_write
      [where clk = "frozen_clock 100" and meta = no_meta and plainNew = "''c''", OF f r e] .
qed

section \<open>Rotation: the order of the two writes\<close>

text \<open>
  A rotation that finds a live, unexpired row and whose new row fits its columns
  runs through: it returns the new plaintext and makes two writes, the insert
  and then the update of the presented row. Conversely a rotation that succeeds
  has found such a row.
\<close>

lemma find_in_rows: "find P xs = Some x \<Longrightarrow> list_ex (\<lambda>r. f r = f x) xs"
  by (induction xs) (simp_all split: if_splits)

lemma find_member: "find P xs = Some x \<Longrightarrow> x \<in> set xs"
  by (induction xs) (simp_all split: if_splits)

lemma rotate_success_run:
  fixes existing :: RefreshToken and H :: "string \<Rightarrow> string" and plainNew :: string
    and meta :: client_meta and clk :: clock and tbl :: token_table
  defines "newRec \<equiv> \<lparr> tok_id = nextval tbl, adminId = adminId existing,
                 customerId = customerId existing, familyId = familyId existing,
                 tokenHash = H plainNew,
                 userAgent = userAgent_column (m_userAgent meta), ip = m_ip meta,
                 createdAt = clk 2, expiresAt = clk 1 + refresh_ttlMs,
                 revokedAt = None, replacedById = None \<rparr>"
  assumes f: "findRefreshTokenByPlain H plainToken tbl = Some existing"
      and r: "revokedAt existing = None"
      and e: "clk 0 < expiresAt existing"
      and l1: "length (familyId existing) \<le> 64"
      and l2: "length (H plainNew) \<le> 255"
      and l3: "fits 255 (userAgent_column (m_userAgent meta))"
      and l4: "fits 64 (m_ip meta)"
  shows "rotateRefreshToken H plainToken meta plainNew clk tbl =
     (Inr \<lparr> newPlainToken = plainNew, ttlMs = refresh_ttlMs,
            r_adminId = or_undefined (adminId existing),
            r_customerId = or_undefined (customerId existing),
            r_familyId = familyId existing \<rparr>,
      [tbl\<lparr> rows := rows tbl @ [newRec], nextval := nextval tbl + 1 \<rparr>,
       tbl\<lparr> rows := map (\<lambda>r. if tok_id r = tok_id existing
                                then r\<lparr> revokedAt := Some (clk 3),
                                        replacedById := Some (nextval tbl) \<rparr>
                                else r) (rows tbl @ [newRec]),
             nextval := nextval tbl + 1 \<rparr>])"
proof -
  have ex: "list_ex (\<lambda>r. tok_id r = tok_id existing) (rows tbl)"
    using f unfolding findRefreshTokenByPlain_def refreshToken_findFirst_def
    by (rule find_in_rows)
  show ?thesis
    using f r e ex l1 l2 l3 l4 unfolding newRec_def
    by (simp add: rotateRefreshToken_def refreshToken_create_def refreshToken_update_def Let_def)
qed

lemma rotate_success_cases:
  assumes s: "fst (rotateRefreshToken H plainToken meta plainNew clk tbl) = Inr res"
  obtains existing where "findRefreshTokenByPlain H plainToken tbl = Some existing"
    and "revokedAt existing = None" and "clk 0 < expiresAt existing"
    and "length (familyId existing) \<le> 64" and "length (H plainNew) \<le> 255"
    and "fits 255 (userAgent_column (m_userAgent meta))" and "fits 64 (m_ip meta)"
proof (cases "findRefreshTokenByPlain H plainToken tbl")
  case None
  with s show ?thesis by (simp add: rotateRefreshToken_def)
next
  case (Some existing)
  have r: "revokedAt existing = None"
  proof (rule ccontr)
    assume "revokedAt existing \<noteq> None"
    with s Some show False by (simp add: rotateRefreshToken_def)
  qed
  have e: "clk 0 < expiresAt existing"
  proof (rule ccontr)
    assume "\<not> clk 0 < expiresAt existing"
    with s Some r show False by (simp add: rotateRefreshToken_def)
  qed
  have l: "length (familyId existing) \<le> 64 \<and> length (H plainNew) \<le> 255 \<and>
           fits 255 (userAgent_column (m_userAgent meta)) \<and> fits 64 (m_ip meta)"
  proof (rule ccontr)
    assume "\<not> (length (familyId existing) \<le> 64 \<and> length (H plainNew) \<le> 255 \<and>
           fits 255 (userAgent_column (m_userAgent meta)) \<and> fits 64 (m_ip meta))"
    with s Some r e show False
      by (simp add: rotateRefreshToken_def refreshToken_create_def)
  qed
  from l have l1: "length (familyId existing) \<le> 64" and l2: "length (H plainNew) \<le> 255"
    and l3: "fits 255 (userAgent_column (m_userAgent meta))" and l4: "fits 64 (m_ip meta)"
    by simp_all
  from Some r e l1 l2 l3 l4 show ?thesis by (rule that)
qed

text \<open>
  C2, as the code has it. A successful rotation makes exactly two writes. The
  first inserts the successor, a non-revoked row of the presented row's family
  with the next id, while the presented row is still non-revoked. The second
  marks every row with the presented row's id revoked at the reading \<open>clk 3\<close>
  and sets its \<^verbatim>\<open>replacedById\<close> to the successor's id.
\<close>

theorem rotate_creates_then_revokes:
  assumes s: "fst (rotateRefreshToken H plainToken meta plainNew clk tbl) = Inr res"
  shows "\<exists>existing newRec tbl1 tbl2.
           findRefreshTokenByPlain H plainToken tbl = Some existing \<and>
           snd (rotateRefreshToken H plainToken meta plainNew clk tbl) = [tbl1, tbl2] \<and>
           rows tbl1 = rows tbl @ [newRec] \<and>
           existing \<in> set (rows tbl) \<and> revokedAt existing = None \<and>
           revokedAt newRec = None \<and> familyId newRec = familyId existing \<and>
           tok_id newRec = nextval tbl \<and>
           rows tbl2 = map (\<lambda>r. if tok_id r = tok_id existing
                                 then r\<lparr> revokedAt := Some (clk 3),
                                         replacedById := Some (tok_id newRec) \<rparr>
                                 else r) (rows tbl1)"
proof -
  from s obtain existing where f: "findRefreshTokenByPlain H plainToken tbl = Some existing"
    and r: "revokedAt existing = None" and e: "clk 0 < expiresAt existing"
    and l1: "length (familyId existing) \<le> 64" and l2: "length (H plainNew) \<le> 255"
    and l3: "fits 255 (userAgent_column (m_userAgent meta))" and l4: "fits 64 (m_ip meta)"
    by (rule rotate_success_cases)
  have m: "existing \<in> set (rows tbl)"
    using f unfolding findRefreshTokenByPlain_def refreshToken_findFirst_def
    by (rule find_member)
  note run = rotate_success_run
    [where clk = clk and meta = meta and plainNew = plainNew, OF f r e l1 l2 l3 l4]
  show ?thesis
    apply (rule exI [of _ existing])
    apply (rule exI [of _ "\<lparr> tok_id = nextval tbl, adminId = adminId existing,
                 customerId = customerId existing, familyId = familyId existing,
                 tokenHash = H plainNew,
                 userAgent = userAgent_column (m_userAgent meta), ip = m_ip meta,
                 createdAt = clk 2, expiresAt = clk 1 + refresh_ttlMs,
                 revokedAt = None, replacedById = None \<rparr>"])
    apply (simp only: run)
    apply (simp add: f r m)
    done
qed

text \<open>
  Rotating the live token of \<open>live_table\<close> at time 50 succeeds, and the table
  after the first write holds two rows of the family \<open>fam\<close>, with ids 1 and 2,
  neither of them revoked: the successor exists before the presented row is
  revoked.
\<close>

theorem rotate_creates_before_revoking_counterexample:
  "fst (rotateRefreshToken plain_digest ''a'' no_meta ''c'' (frozen_clock 50) live_table) =
     Inr \<lparr> newPlainToken = ''c'', ttlMs = 604800000, r_adminId = Some 1,
           r_customerId = None, r_familyId = ''fam'' \<rparr> \<and>
   map tok_id (rows (hd (snd (rotateRefreshToken plain_digest ''a'' no_meta ''c''
                                (frozen_clock 50) live_table)))) = [1, 2] \<and>
   map familyId (rows (hd (snd (rotateRefreshToken plain_digest ''a'' no_meta ''c''
                                (frozen_clock 50) live_table)))) = [''fam'', ''fam''] \<and>
   map revokedAt (rows (hd (snd (rotateRefreshToken plain_digest ''a'' no_meta ''c''
                                (frozen_clock 50) live_table)))) = [None, None]"
  by (simp add: rotateRefreshToken_def findRefreshTokenByPlain_def refreshToken_findFirst_def
      refreshToken_create_def refreshToken_update_def live_table_def sample_row_def
      plain_digest_def frozen_clock_def no_meta_def refresh_ttlMs_def Let_def)

text \<open>The same rotation, as an instance of the theorem.\<close>

theorem rotate_creates_then_revokes_witness:
  "\<exists>existing newRec tbl1 tbl2.
     findRefreshTokenByPlain plain_digest ''a'' live_table = Some existing \<and>
     snd (rotateRefreshToken plain_digest ''a'' no_meta ''c'' (frozen_clock 50) live_table)
       = [tbl1, tbl2] \<and>
     rows tbl1 = rows live_table @ [newRec] \<and>
     existing \<in> set (rows live_table) \<and> revokedAt existing = None \<and>
     revokedAt newRec = None \<and> familyId newRec = familyId existing \<and>
     tok_id newRec = nextval live_table \<and>
     rows tbl2 = map (\<lambda>r. if tok_id r = tok_id existing
                           then r\<lparr> revokedAt := Some (frozen_clock 50 3),
                                   replacedById := Some (tok_id newRec) \<rparr>
                           else r) (rows tbl1)"
proof -
  have s: "fst (rotateRefreshToken plain_digest ''a'' no_meta ''c'' (frozen_clock 50) live_table) =
     Inr \<lparr> newPlainToken = ''c'', ttlMs = 604800000, r_adminId = Some 1,
           r_customerId = None, r_familyId = ''fam'' \<rparr>"
    by (simp add: rotateRefreshToken_def findRefreshTokenByPlain_def refreshToken_findFirst_def
      refreshToken_create_def refreshToken_update_def live_table_def sample_row_def
      plain_digest_def frozen_clock_def no_meta_def refresh_ttlMs_def Let_def)
  show ?thesis by (rule rotate_creates_then_revokes [OF s])
qed

section \<open>Access tokens: issue and verify\<close>

text \<open>
  Verifying, at the clock reading \<open>t\<close>, a token minted at the reading \<open>t0\<close> in
  the same environment: the outcome depends on the whole seconds of the two
  readings and on \<^verbatim>\<open>JWT_EXPIRES_HOURS\<close> only.
\<close>

lemma verify_generateToken:
  "verifyToken e (generateToken e i t0) t =
     (if t0 div 1000 + JWT_EXPIRES_HOURS e * 3600 \<le> t div 1000
      then Inl (AppError ''Invalid or expired token'' 401 ''INVALID_TOKEN'')
      else Inr \<lparr> c_adminId = Some i, c_customerId = None, c_type = ''admin'',
                 iat = t0 div 1000, exp = t0 div 1000 + JWT_EXPIRES_HOURS e * 3600 \<rparr>)"
  by (simp add: verifyToken_def generateToken_def jwt_sign_def)

lemma verify_generateCustomerToken:
  "verifyToken e (generateCustomerToken e i t0) t =
     (if t0 div 1000 + JWT_EXPIRES_HOURS e * 3600 \<le> t div 1000
      then Inl (AppError ''Invalid or expired token'' 401 ''INVALID_TOKEN'')
      else Inr \<lparr> c_adminId = None, c_customerId = Some i, c_type = ''customer'',
                 iat = t0 div 1000, exp = t0 div 1000 + JWT_EXPIRES_HOURS e * 3600 \<rparr>)"
  by (simp add: verifyToken_def generateCustomerToken_def jwt_sign_def)

text \<open>
  C6. For an id \<open>i \<ge> 0\<close> and a positive lifetime, a token of either kind that is
  verified before its expiry decodes to the id and kind it was issued for (with
  the \<^verbatim>\<open>iat\<close> and \<^verbatim>\<open>exp\<close> claims the signing added); verified at or after its
  expiry it fails with \<^verbatim>\<open>INVALID_TOKEN\<close>.
\<close>

theorem verify_issue_roundtrip:
  assumes "0 \<le> i" and "0 < JWT_EXPIRES_HOURS e"
  shows "(t div 1000 < t0 div 1000 + JWT_EXPIRES_HOURS e * 3600 \<longrightarrow>
            verifyToken e (generateToken e i t0) t =
              Inr \<lparr> c_adminId = Some i, c_customerId = None, c_type = ''admin'',
                    iat = t0 div 1000, exp = t0 div 1000 + JWT_EXPIRES_HOURS e * 3600 \<rparr> \<and>
            verifyToken e (generateCustomerToken e i t0) t =
              Inr \<lparr> c_adminId = None, c_customerId = Some i, c_type = ''customer'',
                    iat = t0 div 1000, exp = t0 div 1000 + JWT_EXPIRES_HOURS e * 3600 \<rparr>) \<and>
         (t0 div 1000 + JWT_EXPIRES_HOURS e * 3600 \<le> t div 1000 \<longrightarrow>
            verifyToken e (generateToken e i t0) t =
              Inl (AppError ''Invalid or expired token'' 401 ''INVALID_TOKEN'') \<and>
            verifyToken e (generateCustomerToken e i t0) t =
              Inl (AppError ''Invalid or expired token'' 401 ''INVALID_TOKEN''))"
  by (simp add: verify_generateToken verify_generateCustomerToken)

text \<open>
  A token minted at 5 s with the default lifetime of 8 h is accepted in the last
  millisecond before 28805 s and refused from 28805 s on.
\<close>

theorem verify_issue_roundtrip_witness:
  "verifyToken sample_env (generateToken sample_env 7 5000) 28804999 =
     Inr \<lparr> c_adminId = Some 7, c_customerId = None, c_type = ''admin'',
           iat = 5, exp = 28805 \<rparr> \<and>
   verifyToken sample_env (generateCustomerToken sample_env 7 5000) 28804999 =
     Inr \<lparr> c_adminId = None, c_customerId = Some 7, c_type = ''customer'',
           iat = 5, exp = 28805 \<rparr> \<and>
   verifyToken sample_env (generateToken sample_env 7 5000) 28805000 =
     Inl (AppError ''Invalid or expired token'' 401 ''INVALID_TOKEN'') \<and>
   verifyToken sample_env (generateCustomerToken sample_env 7 5000) 28805000 =
     Inl (AppError ''Invalid or expired token'' 401 ''INVALID_TOKEN'')"
proof -
  have i: "(0::int) \<le> 7" by simp
  have h: "0 < JWT_EXPIRES_HOURS sample_env"
    by (simp add: sample_env_def default_JWT_EXPIRES_HOURS_def)
  have x: "JWT_EXPIRES_HOURS sample_env = 8"
    by (simp add: sample_env_def default_JWT_EXPIRES_HOURS_def)
  show ?thesis
    using verify_issue_roundtrip [OF i h, of 28804999 5000]
          verify_issue_roundtrip [OF i h, of 28805000 5000]
    by (simp add: x)
qed

text \<open>
  C5, as the code has it. A minted access token of either kind is refused with
  \<^verbatim>\<open>INVALID_TOKEN\<close> exactly from \<^verbatim>\<open>JWT_EXPIRES_HOURS\<close> hours after the second it
  was issued in; until then it verifies. The 15 minutes of \<open>accessTtlMs\<close> are the
  \<^verbatim>\<open>maxAge\<close> of the cookie that carries the token, not a bound on the token.
\<close>

theorem token_lifetime_is_JWT_EXPIRES_HOURS:
  "(verifyToken e (generateToken e i t0) t =
      Inl (AppError ''Invalid or expired token'' 401 ''INVALID_TOKEN''))
     = (t0 div 1000 + JWT_EXPIRES_HOURS e * 3600 \<le> t div 1000) \<and>
   (verifyToken e (generateCustomerToken e i t0) t =
      Inl (AppError ''Invalid or expired token'' 401 ''INVALID_TOKEN''))
     = (t0 div 1000 + JWT_EXPIRES_HOURS e * 3600 \<le> t div 1000)"
  by (simp add: verify_generateToken verify_generateCustomerToken)

text \<open>
  With the default lifetime, a token minted at time 0 still verifies 16 minutes
  later, and 7 hours later.
\<close>

theorem token_outlives_15_minutes_counterexample:
  "verifyToken sample_env (generateToken sample_env 7 0) (16 * 60 * 1000) =
     Inr \<lparr> c_adminId = Some 7, c_customerId = None, c_type = ''admin'',
           iat = 0, exp = 28800 \<rparr> \<and>
   verifyToken sample_env (generateToken sample_env 7 0) (7 * 60 * 60 * 1000) =
     Inr \<lparr> c_adminId = Some 7, c_customerId = None, c_type = ''admin'',
           iat = 0, exp = 28800 \<rparr>"
  by (simp add: verify_generateToken sample_env_def default_JWT_EXPIRES_HOURS_def)

section \<open>The guards and deactivated principals\<close>

text \<open>
  What each guard does with a request whose token verifies and has the kind and
  the id claim the guard expects. The admin guard refuses a missing row with
  \<^verbatim>\<open>ADMIN_NOT_FOUND\<close> and a deactivated one with \<^verbatim>\<open>ACCOUNT_DEACTIVATED\<close>.
\<close>

lemma authenticateAdmin_resolves:
  assumes "extractToken req = Some tok" and "tok \<noteq> Text []"
      and "verifyToken e tok now = Inr d" and "c_type d = ''admin''"
      and "c_adminId d = Some i"
  shows "authenticateAdmin e req now db =
           (case findUnique_id i (admins db) of
              None \<Rightarrow> Inl (AppError ''Admin not found'' 404 ''ADMIN_NOT_FOUND'')
            | Some a \<Rightarrow>
                if isActive a
                then Inr (req\<lparr> req_admin := Some \<lparr> pr_id = acc_id a, pr_name = acc_name a,
                            pr_email = email a, pr_isActive = True,
                            pr_createdAt = acc_createdAt a, pr_lastLogin = lastLogin a \<rparr> \<rparr>)
                else Inl (AppError ''Admin account is deactivated'' 401 ''ACCOUNT_DEACTIVATED''))"
  using assms
  by (simp add: authenticateAdmin_def getAdminById_def split: option.split)

text \<open>
  The customer guard refuses a missing row with \<^verbatim>\<open>CUSTOMER_NOT_FOUND\<close> and
  attaches every row it finds, active or not.
\<close>

lemma authenticateCustomer_resolves:
  assumes "extractToken req = Some tok" and "tok \<noteq> Text []"
      and "verifyToken e tok now = Inr d" and "c_type d = ''customer''"
      and "c_customerId d = Some i"
  shows "authenticateCustomer e req now db =
           (case findUnique_id i (customers db) of
              None \<Rightarrow> Inl (AppError ''Customer not found'' 404 ''CUSTOMER_NOT_FOUND'')
            | Some a \<Rightarrow>
                Inr (req\<lparr> req_customer := Some \<lparr> pr_id = acc_id a, pr_name = acc_name a,
                       pr_email = email a, pr_isActive = isActive a,
                       pr_createdAt = acc_createdAt a, pr_lastLogin = lastLogin a \<rparr> \<rparr>))"
  using assms
  by (simp add: authenticateCustomer_def getCustomerById_def split: option.split)

text \<open>
  C4 fails for the customer guard. A request carrying a valid, unexpired customer
  token for customer 7, whose row has \<^verbatim>\<open>isActive = false\<close>, passes
  \<open>authenticateCustomer\<close> with the deactivated customer attached:
  \<open>getCustomerById\<close> never tests the flag.
\<close>

theorem authenticateCustomer_admits_deactivated:
  "authenticateCustomer sample_env
     (bare_request\<lparr> cookie_access_token := Some (generateCustomerToken sample_env 7 0) \<rparr>)
     60000 (sample_db [] [sample_account 7 False]) =
   Inr (bare_request\<lparr> cookie_access_token := Some (generateCustomerToken sample_env 7 0),
                       req_customer := Some \<lparr> pr_id = 7, pr_name = ''Sam'',
                         pr_email = ''sam@x.com'', pr_isActive = False, pr_createdAt = 0,
                         pr_lastLogin = None \<rparr> \<rparr>)"
  by (simp add: authenticateCustomer_def extractToken_def bare_request_def
      verifyToken_def getCustomerById_def findUnique_id_def sample_db_def
      sample_account_def sample_env_def default_JWT_EXPIRES_HOURS_def
      generateCustomerToken_def jwt_sign_def)

text \<open>
  The admin guard on the same input refuses: \<open>getAdminById\<close> tests the flag.
\<close>

lemma authenticateAdmin_refuses_deactivated:
  "authenticateAdmin sample_env
     (bare_request\<lparr> cookie_access_token := Some (generateToken sample_env 7 0) \<rparr>)
     60000 (sample_db [sample_account 7 False] []) =
   Inl (AppError ''Admin account is deactivated'' 401 ''ACCOUNT_DEACTIVATED'')"
  by (simp add: authenticateAdmin_def extractToken_def bare_request_def
      verifyToken_def getAdminById_def findUnique_id_def sample_db_def
      sample_account_def sample_env_def default_JWT_EXPIRES_HOURS_def
      generateToken_def jwt_sign_def)

section \<open>The CSRF guard\<close>

lemma upper_post: "toUpperCase ''post'' = ''POST''"
  by code_simp

lemma upper_GET: "toUpperCase ''GET'' = ''GET''"
  by code_simp

text \<open>
  C8. A request whose method, in upper case, is \<^verbatim>\<open>POST\<close>, \<^verbatim>\<open>PUT\<close>, \<^verbatim>\<open>PATCH\<close> or
  \<^verbatim>\<open>DELETE\<close> is answered with 403 \<^verbatim>\<open>CSRF_MISMATCH\<close> whenever it has no
  \<^verbatim>\<open>x-csrf-token\<close> header or the header differs from the \<^verbatim>\<open>csrf_token\<close> cookie.
  A request with any other method is handed on, whatever its header and cookie.
\<close>

theorem verifyCsrf_double_submit:
  "(toUpperCase (req_method req) \<in> {''POST'', ''PUT'', ''PATCH'', ''DELETE''} \<and>
      (x_csrf_token req = None \<or> x_csrf_token req \<noteq> cookie_csrf_token req)
      \<longrightarrow> verifyCsrf req = Reject 403 ''CSRF_MISMATCH'' ''Invalid CSRF token'') \<and>
   (toUpperCase (req_method req) \<notin> {''POST'', ''PUT'', ''PATCH'', ''DELETE''}
      \<longrightarrow> verifyCsrf req = Next)"
proof (intro conjI impI)
  assume a: "toUpperCase (req_method req) \<in> {''POST'', ''PUT'', ''PATCH'', ''DELETE''} \<and>
      (x_csrf_token req = None \<or> x_csrf_token req \<noteq> cookie_csrf_token req)"
  then have u: "toUpperCase (req_method req) = ''POST'' \<or> toUpperCase (req_method req) = ''PUT'' \<or>
      toUpperCase (req_method req) = ''PATCH'' \<or> toUpperCase (req_method req) = ''DELETE''"
    by simp
  from a have "falsy (x_csrf_token req) \<or> cookie_csrf_token req \<noteq> x_csrf_token req"
    by (cases "x_csrf_token req") auto
  with u show "verifyCsrf req = Reject 403 ''CSRF_MISMATCH'' ''Invalid CSRF token''"
    unfolding verifyCsrf_def Let_def by (simp only: simp_thms if_True if_False)
next
  assume "toUpperCase (req_method req) \<notin> {''POST'', ''PUT'', ''PATCH'', ''DELETE''}"
  then show "verifyCsrf req = Next"
    by (simp add: verifyCsrf_def Let_def)
qed

text \<open>
  A \<^verbatim>\<open>post\<close> without the header, a \<^verbatim>\<open>post\<close> whose header differs from the cookie,
  and a \<^verbatim>\<open>GET\<close> that carries neither.
\<close>

theorem verifyCsrf_double_submit_witness:
  "verifyCsrf (bare_request\<lparr> req_method := ''post'', cookie_csrf_token := Some ''k1'' \<rparr>) =
     Reject 403 ''CSRF_MISMATCH'' ''Invalid CSRF token'' \<and>
   verifyCsrf (bare_request\<lparr> req_method := ''post'', cookie_csrf_token := Some ''k1'',
                             x_csrf_token := Some ''k2'' \<rparr>) =
     Reject 403 ''CSRF_MISMATCH'' ''Invalid CSRF token'' \<and>
   verifyCsrf bare_request = Next"
  using verifyCsrf_double_submit
          [of "bare_request\<lparr> req_method := ''post'', cookie_csrf_token := Some ''k1'' \<rparr>"]
        verifyCsrf_double_submit
          [of "bare_request\<lparr> req_method := ''post'', cookie_csrf_token := Some ''k1'',
                             x_csrf_token := Some ''k2'' \<rparr>"]
        verifyCsrf_double_submit [of bare_request]
  by (simp add: bare_request_def upper_post upper_GET)

section \<open>Login failures\<close>

text \<open>
  C9. A login whose email matches no admin, and a login whose email matches an
  active admin but whose password \<^verbatim>\<open>bcrypt.compare\<close> rejects, end the same way:
  the same \<^verbatim>\<open>AppError\<close> (message, status 401, code \<^verbatim>\<open>INVALID_CREDENTIALS\<close>) and no
  write to the table, whatever the two tables, passwords and clocks are.
\<close>

theorem login_failures_indistinguishable:
  assumes "findUnique_email email1 tbl1 = None"
      and "findUnique_email email2 tbl2 = Some admin"
      and "isActive admin"
      and "\<not> cmp password2 (passwordHash admin)"
  shows "login e cmp email1 password1 clk1 tbl1 =
           (Inl (AppError ''Invalid email or password'' 401 ''INVALID_CREDENTIALS''), []) \<and>
         login e cmp email2 password2 clk2 tbl2 =
           (Inl (AppError ''Invalid email or password'' 401 ''INVALID_CREDENTIALS''), [])"
  using assms by (simp add: login_def invalid_credentials_def)

text \<open>An unknown email against the empty table, and a wrong password for Sam.\<close>

theorem login_failures_indistinguishable_witness:
  "login sample_env plain_compare ''nobody@x.com'' ''Abcdefg1'' (frozen_clock 50) [] =
     (Inl (AppError ''Invalid email or password'' 401 ''INVALID_CREDENTIALS''), []) \<and>
   login sample_env plain_compare ''sam@x.com'' ''Wrong123'' (frozen_clock 50)
       [sample_account 1 True] =
     (Inl (AppError ''Invalid email or password'' 401 ''INVALID_CREDENTIALS''), [])"
proof -
  have a: "findUnique_email ''nobody@x.com'' [] = None"
    by (simp add: findUnique_email_def)
  have b: "findUnique_email ''sam@x.com'' [sample_account 1 True] = Some (sample_account 1 True)"
    by (simp add: findUnique_email_def sample_account_def)
  have c: "isActive (sample_account 1 True)"
    by (simp add: sample_account_def)
  have d: "\<not> plain_compare ''Wrong123'' (passwordHash (sample_account 1 True))"
    by (simp add: sample_account_def plain_compare_def)
  show ?thesis
    by (rule login_failures_indistinguishable [where cmp = plain_compare, OF a b c d])
qed

section \<open>Refresh and deactivated principals\<close>

lemma or_undefined_twice: "or_undefined (or_undefined x) = or_undefined x"
  by (cases x) simp_all

text \<open>
  C10, as the code has it. Let the refresh cookie find a row that is neither
  revoked nor expired, let the row's owner exist in the tables \<open>as\<close> and \<open>cs\<close>
  of admins and customers, and let the values of the new row fit their columns
  (the request's \<^verbatim>\<open>User-Agent\<close> within 255 characters, its address within 64).
  Then, whatever else \<open>as\<close> and \<open>cs\<close> hold and whatever the owner's \<^verbatim>\<open>isActive\<close>
  flag is, the rotation succeeds with exactly two writes, the insert of the
  successor \<open>newRec\<close> and the revocation of the presented row with its link to
  the successor, and the refresh endpoint answers 200 with a freshly minted
  access token for the owner and the new refresh token, leaving the same two
  writes behind. Neither function reads the principals' tables.
\<close>

theorem refresh_ignores_active_flag:
  fixes existing :: RefreshToken and H :: "string \<Rightarrow> string" and plainNew :: string
    and req :: request and clk :: clock and db :: database and e :: env
    and as cs :: "account list"
  defines "newRec \<equiv> \<lparr> tok_id = nextval (refreshTokens db), adminId = adminId existing,
                 customerId = customerId existing, familyId = familyId existing,
                 tokenHash = H plainNew,
                 userAgent = userAgent_column (user_agent req), ip = req_ip req,
                 createdAt = clk 2, expiresAt = clk 1 + refresh_ttlMs,
                 revokedAt = None, replacedById = None \<rparr>"
  defines "tbl1 \<equiv> (refreshTokens db)\<lparr> rows := rows (refreshTokens db) @ [newRec],
                                       nextval := nextval (refreshTokens db) + 1 \<rparr>"
  defines "tbl2 \<equiv> tbl1\<lparr> rows := map (\<lambda>r. if tok_id r = tok_id existing
                                         then r\<lparr> revokedAt := Some (clk 3),
                                                 replacedById := Some (tok_id newRec) \<rparr>
                                         else r) (rows tbl1) \<rparr>"
  defines "tok \<equiv> (case or_undefined (adminId existing) of
                     Some a \<Rightarrow> generateToken e a (clk 4)
                   | None \<Rightarrow>
                       (case or_undefined (customerId existing) of
                          Some c \<Rightarrow> generateCustomerToken e c (clk 4)
                        | None \<Rightarrow> Text []))"
  assumes f: "findRefreshTokenByPlain H refreshToken (refreshTokens db) = Some existing"
      and r: "revokedAt existing = None"
      and x: "clk 0 < expiresAt existing"
      and c: "cookie_refresh_token req = Some refreshToken"
      and n: "refreshToken \<noteq> []"
      and l1: "length (familyId existing) \<le> 64"
      and l2: "length (H plainNew) \<le> 255"
      and l3: "fits 255 (userAgent_column (user_agent req))"
      and l4: "fits 64 (req_ip req)"
      and o1: "case adminId existing of None \<Rightarrow> True | Some a \<Rightarrow> findUnique_id a as \<noteq> None"
      and o2: "case customerId existing of None \<Rightarrow> True | Some c \<Rightarrow> findUnique_id c cs \<noteq> None"
  shows "rotateRefreshToken H refreshToken
           \<lparr> m_userAgent = user_agent req, m_ip = req_ip req \<rparr> plainNew clk
           (refreshTokens (db\<lparr> admins := as, customers := cs \<rparr>)) =
           (Inr \<lparr> newPlainToken = plainNew, ttlMs = refresh_ttlMs,
                  r_adminId = or_undefined (adminId existing),
                  r_customerId = or_undefined (customerId existing),
                  r_familyId = familyId existing \<rparr>,
            [tbl1, tbl2]) \<and>
         refresh_token_route e H req plainNew clk (db\<lparr> admins := as, customers := cs \<rparr>) =
           (\<lparr> status = 200,
              set_cookies = [(''access_token'', tok, accessTtlMs),
                             (''refresh_token'', Text plainNew, refresh_ttlMs)],
              json = RefreshBody tok (clk 5 + accessTtlMs) \<rparr>,
            [tbl1, tbl2])"
proof -
  let ?meta = "\<lparr> m_userAgent = user_agent req, m_ip = req_ip req \<rparr>"
  have t: "refreshTokens (db\<lparr> admins := as, customers := cs \<rparr>) = refreshTokens db"
    by simp
  have l3': "fits 255 (userAgent_column (m_userAgent ?meta))" using l3 by simp
  have l4': "fits 64 (m_ip ?meta)" using l4 by simp
  note run = rotate_success_run
    [where clk = clk and plainNew = plainNew and meta = ?meta, OF f r x l1 l2 l3' l4']
  have one: "rotateRefreshToken H refreshToken ?meta plainNew clk (refreshTokens db) =
           (Inr \<lparr> newPlainToken = plainNew, ttlMs = refresh_ttlMs,
                  r_adminId = or_undefined (adminId existing),
                  r_customerId = or_undefined (customerId existing),
                  r_familyId = familyId existing \<rparr>,
            [tbl1, tbl2])"
    unfolding run tbl2_def tbl1_def newRec_def by simp
  have two: "refresh_token_route e H req plainNew clk (db\<lparr> admins := as, customers := cs \<rparr>) =
           (\<lparr> status = 200,
              set_cookies = [(''access_token'', tok, accessTtlMs),
                             (''refresh_token'', Text plainNew, refresh_ttlMs)],
              json = RefreshBody tok (clk 5 + accessTtlMs) \<rparr>,
            [tbl1, tbl2])"
    unfolding refresh_token_route_def tok_def
    by (simp add: one c n Let_def or_undefined_twice cong: option.case_cong)
  from one two show ?thesis by (simp only: t simp_thms)
qed

text \<open>
  The claim without the condition on the columns fails. The live token of
  \<open>live_table\<close> is presented at time 50 with a \<^verbatim>\<open>User-Agent\<close> of 300 characters:
  the row is neither revoked nor expired and its owner is active, yet the insert
  is refused, the rotation throws having written nothing, and the endpoint
  answers 400 \<^verbatim>\<open>DATABASE_ERROR\<close>.
\<close>

theorem refresh_fails_on_long_user_agent_counterexample:
  "findRefreshTokenByPlain plain_digest ''a'' (refreshTokens (sample_db [sample_account 1 True] []))
     = Some (sample_row 1 ''a'' 100 None) \<and>
   revokedAt (sample_row 1 ''a'' 100 None) = None \<and>
   frozen_clock 50 0 < expiresAt (sample_row 1 ''a'' 100 None) \<and>
   rotateRefreshToken plain_digest ''a''
       \<lparr> m_userAgent = Some (Single long_user_agent), m_ip = None \<rparr> ''c'' (frozen_clock 50)
       (refreshTokens (sample_db [sample_account 1 True] [])) =
     (Inl PrismaValueTooLong, []) \<and>
   refresh_token_route sample_env plain_digest
       (bare_request\<lparr> req_method := ''POST'', user_agent := Some (Single long_user_agent),
                       cookie_refresh_token := Some ''a'' \<rparr>)
       ''c'' (frozen_clock 50) (sample_db [sample_account 1 True] []) =
     (\<lparr> status = 400, set_cookies = [],
        json = ErrorBody ''DATABASE_ERROR'' ''Database operation failed'' \<rparr>, [])"
  by (simp add: refresh_token_route_def rotateRefreshToken_def findRefreshTokenByPlain_def
      refreshToken_findFirst_def refreshToken_create_def live_table_def sample_row_def
      sample_db_def plain_digest_def frozen_clock_def long_user_agent_def bare_request_def)

text \<open>
  The live token of admin 1 is rotated and a new access token for admin 1 is
  minted in a database where admin 1 is deactivated; the table left behind has
  the presented row revoked at time 50 and linked to the new row 2.
\<close>

theorem refresh_ignores_active_flag_witness:
  "fst (rotateRefreshToken plain_digest ''a'' \<lparr> m_userAgent = None, m_ip = None \<rparr> ''c''
          (frozen_clock 50) (refreshTokens (sample_db [sample_account 1 False] []))) =
     Inr \<lparr> newPlainToken = ''c'', ttlMs = refresh_ttlMs, r_adminId = Some 1,
           r_customerId = None, r_familyId = ''fam'' \<rparr> \<and>
   fst (refresh_token_route sample_env plain_digest
          (bare_request\<lparr> req_method := ''POST'', cookie_refresh_token := Some ''a'' \<rparr>)
          ''c'' (frozen_clock 50) (sample_db [sample_account 1 False] [])) =
     \<lparr> status = 200,
       set_cookies = [(''access_token'', generateToken sample_env 1 50, accessTtlMs),
                      (''refresh_token'', Text ''c'', refresh_ttlMs)],
       json = RefreshBody (generateToken sample_env 1 50) (50 + accessTtlMs) \<rparr> \<and>
   map tok_id (rows (after_writes live_table (snd (refresh_token_route sample_env plain_digest
          (bare_request\<lparr> req_method := ''POST'', cookie_refresh_token := Some ''a'' \<rparr>)
          ''c'' (frozen_clock 50) (sample_db [sample_account 1 False] []))))) = [1, 2] \<and>
   map revokedAt (rows (after_writes live_table (snd (refresh_token_route sample_env plain_digest
          (bare_request\<lparr> req_method := ''POST'', cookie_refresh_token := Some ''a'' \<rparr>)
          ''c'' (frozen_clock 50) (sample_db [sample_account 1 False] []))))) = [Some 50, None] \<and>
   map replacedById (rows (after_writes live_table (snd (refresh_token_route sample_env
          plain_digest
          (bare_request\<lparr> req_method := ''POST'', cookie_refresh_token := Some ''a'' \<rparr>)
          ''c'' (frozen_clock 50) (sample_db [sample_account 1 False] []))))) = [Some 2, None]"
proof -
  let ?db = "sample_db [sample_account 1 False] []"
  let ?req = "bare_request\<lparr> req_method := ''POST'', cookie_refresh_token := Some ''a'' \<rparr>"
  have f: "findRefreshTokenByPlain plain_digest ''a'' (refreshTokens ?db) =
             Some (sample_row 1 ''a'' 100 None)"
    by (simp add: findRefreshTokenByPlain_def refreshToken_findFirst_def sample_row_def
        live_table_def plain_digest_def sample_db_def)
  have r: "revokedAt (sample_row 1 ''a'' 100 None) = None"
    by (simp add: sample_row_def)
  have x: "frozen_clock 50 0 < expiresAt (sample_row 1 ''a'' 100 None)"
    by (simp add: sample_row_def frozen_clock_def)
  have c: "cookie_refresh_token ?req = Some ''a''"
    by simp
  have n: "''a'' \<noteq> []"
    by simp
  have l1: "length (familyId (sample_row 1 ''a'' 100 None)) \<le> 64"
    by (simp add: sample_row_def)
  have l2: "length (plain_digest ''c'') \<le> 255"
    by (simp add: plain_digest_def)
  have l3: "fits 255 (userAgent_column (user_agent ?req))"
    by (simp add: bare_request_def)
  have l4: "fits 64 (req_ip ?req)"
    by (simp add: bare_request_def)
  have o1: "case adminId (sample_row 1 ''a'' 100 None) of None \<Rightarrow> True
            | Some a \<Rightarrow> findUnique_id a [sample_account 1 False] \<noteq> None"
    by (simp add: sample_row_def findUnique_id_def sample_account_def)
  have o2: "case customerId (sample_row 1 ''a'' 100 None) of None \<Rightarrow> True
            | Some c \<Rightarrow> findUnique_id c [] \<noteq> None"
    by (simp add: sample_row_def)
  have d: "?db\<lparr> admins := [sample_account 1 False], customers := [] \<rparr> = ?db"
    by (simp add: sample_db_def)
  note full = refresh_ignores_active_flag
      [where clk = "frozen_clock 50" and plainNew = "''c''" and e = sample_env
         and as = "[sample_account 1 False]" and cs = "[]",
       OF f r x c n l1 l2 l3 l4 o1 o2, unfolded d]
  have u: "user_agent ?req = None" "req_ip ?req = None"
    by (simp_all add: bare_request_def)
  show ?thesis
    unfolding full [THEN conjunct1, unfolded u] full [THEN conjunct2]
    by (simp add: after_writes_def sample_db_def live_table_def sample_row_def
        frozen_clock_def plain_digest_def)
qed

end
